theory Spec2Isabelle
  imports Main "HOL-Library.Char_ord" "HOL-Library.List_Lexorder"
begin

section \<open>MediaMTX VOD recorder: a shallow embedding of recorder.py\<close>

text \<open>
  The embedding follows \<^verbatim>\<open>src/recorder.py\<close>. Program state (the table
  \<^verbatim>\<open>self.recordings\<close> and the upload queue) is a record passed through every
  operation; the environment the program observes (clock, recordings directory, capture
  children) is a second record, arbitrary at the start of each operation. Times are whole
  seconds (\<open>int\<close>): the source compares floats, and no claim depends on fractions of a
  second. A session id is the UTC second at which it is minted: the source renders that
  second with \<^verbatim>\<open>'%Y%m%d_%H%M%S'\<close>, which is one-to-one on seconds. OS-level errors
  of \<^verbatim>\<open>mkdir\<close>, \<^verbatim>\<open>Popen\<close>, \<^verbatim>\<open>glob\<close> and \<^verbatim>\<open>stat\<close> and the
  interleaving of the three threads are outside the model: every operation runs alone.
\<close>

subsection \<open>Transfer configuration (S3Uploader.__init__, lines 97-103)\<close>

definition multipart_threshold :: nat where
  "multipart_threshold = 1024 * 25"

definition multipart_chunksize :: nat where
  "multipart_chunksize = 1024 * 25"

definition MiB :: nat where
  "MiB = 1024 * 1024"

text \<open>The transfer manager switches to a multipart upload at the configured threshold.\<close>

definition uses_multipart :: "nat \<Rightarrow> bool" where
  "uses_multipart size_bytes = (multipart_threshold \<le> size_bytes)"

subsection \<open>The upstream poll (MediaMTXMonitor.get_active_streams, lines 268-294)\<close>

text \<open>
  A decoded JSON body, as \<^verbatim>\<open>response.json()\<close> returns it. Numbers are
  integers here; a float is falsy exactly when it is zero, as an integer is. A decoded
  dict has each key once.
\<close>

datatype json =
    JNull
  | JBool bool
  | JNum int
  | JStr string
  | JArr "json list"
  | JObj "(string \<times> json) list"

text \<open>Python's truth value of a decoded JSON value.\<close>

fun truthy :: "json \<Rightarrow> bool" where
  "truthy JNull = False"
| "truthy (JBool b) = b"
| "truthy (JNum n) = (n \<noteq> 0)"
| "truthy (JStr s) = (s \<noteq> [])"
| "truthy (JArr xs) = (xs \<noteq> [])"
| "truthy (JObj kvs) = (kvs \<noteq> [])"

datatype py_error = AttributeError | KeyError | TypeError | RequestException | JSONDecodeError

text \<open>\<^verbatim>\<open>x.get(k)\<close>: defined on dicts only; a missing key gives \<^verbatim>\<open>None\<close>.\<close>

fun py_get :: "json \<Rightarrow> string \<Rightarrow> py_error + json" where
  "py_get (JObj kvs) k = Inr (case map_of kvs k of None \<Rightarrow> JNull | Some v \<Rightarrow> v)"
| "py_get _ k = Inl AttributeError"

text \<open>\<^verbatim>\<open>x[k]\<close> with a string key.\<close>

fun py_index :: "json \<Rightarrow> string \<Rightarrow> py_error + json" where
  "py_index (JObj kvs) k = (case map_of kvs k of None \<Rightarrow> Inl KeyError | Some v \<Rightarrow> Inr v)"
| "py_index _ k = Inl TypeError"

text \<open>
  \<^verbatim>\<open>for item in x\<close>: the elements of a list, the keys of a dict, the characters of
  a string; anything else is not iterable.
\<close>

fun py_iter :: "json \<Rightarrow> py_error + json list" where
  "py_iter (JArr xs) = Inr xs"
| "py_iter (JObj kvs) = Inr (map (\<lambda>kv. JStr (fst kv)) kvs)"
| "py_iter (JStr s) = Inr (map (\<lambda>c. JStr [c]) s)"
| "py_iter _ = Inl TypeError"

text \<open>
  The list comprehension of lines 280-284: the condition
  \<^verbatim>\<open>item.get('ready') and item.get('source')\<close> is evaluated first (the second
  \<^verbatim>\<open>get\<close> only when the first value is truthy), \<^verbatim>\<open>item['name']\<close> only
  for an item that passes. The first exception ends the comprehension.
\<close>

fun comprehension :: "json list \<Rightarrow> py_error + json list" where
  "comprehension [] = Inr []"
| "comprehension (item # items) =
     (case py_get item ''ready'' of
        Inl e \<Rightarrow> Inl e
      | Inr r \<Rightarrow>
          if truthy r then
            (case py_get item ''source'' of
               Inl e \<Rightarrow> Inl e
             | Inr s \<Rightarrow>
                 if truthy s then
                   (case py_index item ''name'' of
                      Inl e \<Rightarrow> Inl e
                    | Inr n \<Rightarrow>
                        (case comprehension items of
                           Inl e \<Rightarrow> Inl e
                         | Inr ns \<Rightarrow> Inr (n # ns)))
                 else comprehension items)
          else comprehension items)"

text \<open>
  \<^verbatim>\<open>', '.join(active_streams)\<close> of the log line (287) accepts strings only; it is
  evaluated whenever the list is not empty.
\<close>

fun join_names :: "json list \<Rightarrow> py_error + string list" where
  "join_names [] = Inr []"
| "join_names (JStr s # ns) = (case join_names ns of Inl e \<Rightarrow> Inl e | Inr ss \<Rightarrow> Inr (s # ss))"
| "join_names (_ # ns) = Inl TypeError"

text \<open>
  What \<^verbatim>\<open>requests.get\<close> gives: a transport error (an exception), or a response
  with a status code and a body, which decodes to JSON or does not (\<open>None\<close>).
\<close>

datatype response = TransportError | Response nat "json option"

text \<open>The body of the \<^verbatim>\<open>try\<close> block: \<open>Inr None\<close> is falling through to line 294.\<close>

definition poll_body :: "response \<Rightarrow> py_error + string list option" where
  "poll_body resp =
     (case resp of
        TransportError \<Rightarrow> Inl RequestException
      | Response status body \<Rightarrow>
          if status = 200 then
            (case body of
               None \<Rightarrow> Inl JSONDecodeError
             | Some data \<Rightarrow>
                 (case py_get data ''items'' of
                    Inl e \<Rightarrow> Inl e
                  | Inr items \<Rightarrow>
                      if truthy items then
                        (case py_iter items of
                           Inl e \<Rightarrow> Inl e
                         | Inr xs \<Rightarrow>
                             (case comprehension xs of
                                Inl e \<Rightarrow> Inl e
                              | Inr ns \<Rightarrow>
                                  (case join_names ns of
                                     Inl e \<Rightarrow> Inl e
                                   | Inr ss \<Rightarrow> Inr (Some ss))))
                      else Inr None))
          else Inr None)"

text \<open>Every exception is caught (line 291); both it and falling through return \<open>[]\<close>.\<close>

definition get_active_streams :: "response \<Rightarrow> string list" where
  "get_active_streams resp =
     (case poll_body resp of
        Inl e \<Rightarrow> []
      | Inr None \<Rightarrow> []
      | Inr (Some ss) \<Rightarrow> ss)"

text \<open>
  A failed poll in the sense of the specification: a transport error, a status other than
  200, or a body that does not decode.
\<close>

fun poll_failed :: "response \<Rightarrow> bool" where
  "poll_failed TransportError = True"
| "poll_failed (Response status body) = (status \<noteq> 200 \<or> body = None)"

subsection \<open>Sessions, upload tasks and the environment\<close>

text \<open>
  A directory \<^verbatim>\<open>RECORDINGS_DIR / f"{stream_name}_{session_id}"\<close> is identified by
  the pair of stream name and session id. A file path is a directory and a file name.
\<close>

type_synonym dir = "string \<times> int"

text \<open>The dataclass \<^verbatim>\<open>RecordingProcess\<close> (lines 60-70); the child is known by its pid.\<close>

record recording =
  stream_name :: string
  session_id :: int
  process :: "nat option"
  start_time :: int
  output_dir :: "dir option"
  uploaded_files :: "string set"
  is_active :: bool
  pid :: "nat option"

text \<open>The dict put on the queue (lines 109-114); \<^verbatim>\<open>retry_count\<close> is absent at first.\<close>

record task =
  file_dir :: dir
  file_name :: string
  task_stream :: string
  task_session :: int
  queued_at :: int
  retry_count :: "nat option"

record settings =
  MAX_CONCURRENT_RECORDINGS :: int
  OUTPUT_FORMAT :: string
  POLLING_INTERVAL :: int

text \<open>
  The monitor's state: the dict \<^verbatim>\<open>self.recordings\<close> in insertion order (the order
  in which Python iterates it), and the FIFO \<^verbatim>\<open>self.uploader.upload_queue\<close>.
\<close>

record monitor =
  recordings :: "(string \<times> recording) list"
  upload_queue :: "task list"

text \<open>
  The environment: the clock; the recordings directory, each existing session directory
  with its entries (file name, modification time) in the order the OS lists them; the pids
  of the children that have exited; the number of children launched so far (the next pid);
  and, for every child, whether it is still alive when probed two seconds after launch.
\<close>

record world =
  clock :: int
  dirs :: "dir \<Rightarrow> (string \<times> int) list option"
  exited :: "nat set"
  launched :: nat
  survives_probe :: "nat \<Rightarrow> bool"

subsection \<open>S3Uploader.queue_upload (lines 107-115)\<close>

definition queue_upload :: "dir \<Rightarrow> string \<Rightarrow> string \<Rightarrow> int \<Rightarrow> int \<Rightarrow> task list \<Rightarrow> task list" where
  "queue_upload d name stream sid now q =
     q @ [\<lparr>file_dir = d, file_name = name, task_stream = stream, task_session = sid,
           queued_at = now, retry_count = None\<rparr>]"

subsection \<open>Globbing a session directory\<close>

text \<open>
  \<^verbatim>\<open>glob(f"segment_*.{OUTPUT_FORMAT}")\<close>: the name starts with \<^verbatim>\<open>segment_\<close>, ends
  with the extension, and the two do not overlap. The extension is taken to hold no glob
  metacharacter.
\<close>

definition matches_segment :: "string \<Rightarrow> string \<Rightarrow> bool" where
  "matches_segment fmt name =
     (let pre = ''segment_''; suf = ''.'' @ fmt
      in length pre + length suf \<le> length name
         \<and> take (length pre) name = pre
         \<and> drop (length name - length suf) name = suf)"

definition glob_segments :: "string \<Rightarrow> (string \<times> int) list \<Rightarrow> (string \<times> int) list" where
  "glob_segments fmt entries = filter (\<lambda>e. matches_segment fmt (fst e)) entries"

subsection \<open>The segment detector (MediaMTXMonitor.check_completed_segments, lines 305-328)\<close>

text \<open>
  The two effects of the inner loop, in the order the code performs them, are also recorded
  as a history: \<^verbatim>\<open>recording.uploaded_files.add(name)\<close> (line 327) and
  \<^verbatim>\<open>self.uploader.queue_upload(...)\<close> (line 328).
\<close>

datatype event = Dispatched string | Queued task

text \<open>The loop of lines 318-328 over \<^verbatim>\<open>segment_files[:-1]\<close>.\<close>

fun scan_files ::
  "dir \<Rightarrow> string \<Rightarrow> int \<Rightarrow> int \<Rightarrow> (string \<times> int) list \<Rightarrow>
   string set \<times> task list \<times> event list \<Rightarrow> string set \<times> task list \<times> event list" where
  "scan_files d stream sid now [] acc = acc"
| "scan_files d stream sid now ((name, mtime) # files) (up, q, evs) =
     (if name \<notin> up then
        (if now - mtime > 10 then
           (let up' = insert name up;
                q' = queue_upload d name stream sid now q
            in scan_files d stream sid now files (up', q', evs @ [Dispatched name, Queued (last q')]))
         else scan_files d stream sid now files (up, q, evs))
      else scan_files d stream sid now files (up, q, evs))"

text \<open>The body of the outer loop (lines 308-328) for one entry of the table.\<close>

definition check_recording ::
  "settings \<Rightarrow> world \<Rightarrow> string \<Rightarrow> recording \<Rightarrow> task list \<Rightarrow> recording \<times> task list \<times> event list" where
  "check_recording cfg w stream r q =
     (case output_dir r of
        None \<Rightarrow> (r, q, [])
      | Some d \<Rightarrow>
          (case dirs w d of
             None \<Rightarrow> (r, q, [])
           | Some entries \<Rightarrow>
               (let segment_files = sort_key fst (glob_segments (OUTPUT_FORMAT cfg) entries)
                in if length segment_files \<le> 1 then (r, q, [])
                   else
                     (case scan_files d stream (session_id r) (clock w) (butlast segment_files)
                             (uploaded_files r, q, []) of
                        (up, q', evs) \<Rightarrow> (r\<lparr>uploaded_files := up\<rparr>, q', evs)))))"

fun check_all ::
  "settings \<Rightarrow> world \<Rightarrow> (string \<times> recording) list \<Rightarrow> task list \<Rightarrow>
   (string \<times> recording) list \<times> task list" where
  "check_all cfg w [] q = ([], q)"
| "check_all cfg w ((stream, r) # rest) q =
     (case check_recording cfg w stream r q of
        (r', q', evs) \<Rightarrow>
          (case check_all cfg w rest q' of
             (rest', q'') \<Rightarrow> ((stream, r') # rest', q'')))"

definition check_completed_segments :: "settings \<Rightarrow> world \<Rightarrow> monitor \<Rightarrow> monitor" where
  "check_completed_segments cfg w m =
     (case check_all cfg w (recordings m) (upload_queue m) of
        (rs, q) \<Rightarrow> m\<lparr>recordings := rs, upload_queue := q\<rparr>)"

subsection \<open>The capture supervisor (FFmpegRecorder, lines 186-248)\<close>

text \<open>
  \<^verbatim>\<open>start_recording\<close>: create the directory if it is not there
  (\<^verbatim>\<open>exist_ok=True\<close>), launch the child, build the \<^verbatim>\<open>RecordingProcess\<close>.
\<close>

definition start_recording :: "string \<Rightarrow> int \<Rightarrow> world \<Rightarrow> recording \<times> world" where
  "start_recording stream sid w =
     (let d = (stream, sid);
          p = launched w;
          w' = w\<lparr>dirs := (case dirs w d of None \<Rightarrow> (dirs w)(d \<mapsto> []) | Some es \<Rightarrow> dirs w),
                 launched := Suc p\<rparr>
      in (\<lparr>stream_name = stream, session_id = sid, process = Some p, start_time = clock w,
           output_dir = Some d, uploaded_files = {}, is_active = True, pid = Some p\<rparr>, w'))"

text \<open>
  \<^verbatim>\<open>stop_recording\<close>: a child that is still running is asked to quit, and killed if
  it does not; either way it has exited afterwards.
\<close>

definition stop_recording :: "recording \<Rightarrow> world \<Rightarrow> world" where
  "stop_recording r w =
     (case process r of
        None \<Rightarrow> w
      | Some p \<Rightarrow> if p \<notin> exited w then w\<lparr>exited := insert p (exited w)\<rparr> else w)"

subsection \<open>Starting and stopping sessions (lines 330-371)\<close>

definition start_stream_recording :: "settings \<Rightarrow> string \<Rightarrow> monitor \<times> world \<Rightarrow> monitor \<times> world" where
  "start_stream_recording cfg stream mw =
     (case mw of (m, w) \<Rightarrow>
        if stream \<in> set (map fst (recordings m)) then (m, w)
        else if int (length (recordings m)) \<ge> MAX_CONCURRENT_RECORDINGS cfg then (m, w)
        else
          (case start_recording stream (clock w) w of
             (r, w1) \<Rightarrow>
               (let p = launched w;
                    w2 = w1\<lparr>clock := clock w1 + 2,
                            exited := (if survives_probe w p then exited w1 else insert p (exited w1))\<rparr>
                in if \<not> survives_probe w p then (m, w2)
                   else (m\<lparr>recordings := recordings m @ [(stream, r)]\<rparr>, w2))))"

text \<open>The loop of lines 366-367 over \<^verbatim>\<open>remaining_files\<close>, in listing order.\<close>

fun queue_remaining :: "dir \<Rightarrow> string \<Rightarrow> int \<Rightarrow> int \<Rightarrow> (string \<times> int) list \<Rightarrow> task list \<Rightarrow> task list" where
  "queue_remaining d stream sid now [] q = q"
| "queue_remaining d stream sid now ((name, mtime) # files) q =
     queue_remaining d stream sid now files (queue_upload d name stream sid now q)"

definition stop_stream_recording :: "settings \<Rightarrow> string \<Rightarrow> monitor \<times> world \<Rightarrow> monitor \<times> world" where
  "stop_stream_recording cfg stream mw =
     (case mw of (m, w) \<Rightarrow>
        (case map_of (recordings m) stream of
           None \<Rightarrow> (m, w)
         | Some r0 \<Rightarrow>
             (let r = r0\<lparr>is_active := False\<rparr>;
                  w' = stop_recording r w;
                  q' = (case output_dir r of
                          None \<Rightarrow> upload_queue m
                        | Some d \<Rightarrow>
                            (case dirs w' d of
                               None \<Rightarrow> upload_queue m
                             | Some entries \<Rightarrow>
                                 queue_remaining d stream (session_id r) (clock w')
                                   (glob_segments (OUTPUT_FORMAT cfg) entries) (upload_queue m)))
              in (\<lparr>recordings = filter (\<lambda>kv. fst kv \<noteq> stream) (recordings m), upload_queue = q'\<rparr>,
                  w'))))"

subsection \<open>The process-health sweep (lines 373-379)\<close>

text \<open>
  The loop runs over a snapshot of the table. The names of a dict are distinct and a step
  touches the entry of its own name only, so the entry deleted at line 378 is always there.
\<close>

fun health_loop :: "settings \<Rightarrow> (string \<times> recording) list \<Rightarrow> monitor \<times> world \<Rightarrow> monitor \<times> world" where
  "health_loop cfg [] mw = mw"
| "health_loop cfg ((stream, r) # snapshot) (m, w) =
     (case process r of
        None \<Rightarrow> health_loop cfg snapshot (m, w)
      | Some p \<Rightarrow>
          if p \<in> exited w then
            health_loop cfg snapshot
              (start_stream_recording cfg stream
                 (m\<lparr>recordings := filter (\<lambda>kv. fst kv \<noteq> stream) (recordings m)\<rparr>, w))
          else health_loop cfg snapshot (m, w))"

definition monitor_process_health :: "settings \<Rightarrow> monitor \<times> world \<Rightarrow> monitor \<times> world" where
  "monitor_process_health cfg mw = health_loop cfg (recordings (fst mw)) mw"

subsection \<open>One pass of the main loop (MediaMTXMonitor.run, lines 385-407)\<close>

text \<open>Lines 391-393.\<close>

fun start_new :: "settings \<Rightarrow> string list \<Rightarrow> monitor \<times> world \<Rightarrow> monitor \<times> world" where
  "start_new cfg [] mw = mw"
| "start_new cfg (stream # streams) mw =
     (if stream \<notin> set (map fst (recordings (fst mw)))
      then start_new cfg streams (start_stream_recording cfg stream mw)
      else start_new cfg streams mw)"

text \<open>Lines 396-399, over the snapshot \<^verbatim>\<open>list(self.recordings.keys())\<close>.\<close>

fun stop_inactive :: "settings \<Rightarrow> string list \<Rightarrow> string list \<Rightarrow> monitor \<times> world \<Rightarrow> monitor \<times> world" where
  "stop_inactive cfg active [] mw = mw"
| "stop_inactive cfg active (stream # keys) mw =
     (if stream \<notin> set active
      then stop_inactive cfg active keys (stop_stream_recording cfg stream mw)
      else stop_inactive cfg active keys mw)"

text \<open>The start phase and the stop phase of one pass, in the order of the source.\<close>

definition reconcile :: "settings \<Rightarrow> string list \<Rightarrow> monitor \<times> world \<Rightarrow> monitor \<times> world" where
  "reconcile cfg active mw =
     (let mw1 = start_new cfg active mw
      in stop_inactive cfg active (map fst (recordings (fst mw1))) mw1)"

definition run_tick :: "settings \<Rightarrow> response \<Rightarrow> monitor \<times> world \<Rightarrow> monitor \<times> world" where
  "run_tick cfg resp mw =
     (let active_streams = get_active_streams resp;
          mw2 = reconcile cfg active_streams mw;
          mw3 = monitor_process_health cfg mw2
      in (fst mw3, (snd mw3)\<lparr>clock := clock (snd mw3) + POLLING_INTERVAL cfg\<rparr>))"

subsection \<open>The upload worker (S3Uploader.upload_file, lines 117-167)\<close>

text \<open>
  What one call meets: whether the local file is still there, whether the put to the object
  store succeeds, and whether the local file can be removed afterwards.
\<close>

record upload_env =
  file_exists :: bool
  put_ok :: bool
  unlink_ok :: bool

datatype upload_error = UploadFailed

text \<open>
  What one call leaves behind: the queue, the seconds slept, whether the object was stored
  and whether the local file was removed.
\<close>

record upload_result =
  queue_after :: "task list"
  slept :: nat
  stored :: bool
  removed :: bool

text \<open>\<^verbatim>\<open>task.get('retry_count', 0)\<close>.\<close>

definition get_retry_count :: "task \<Rightarrow> nat" where
  "get_retry_count t = (case retry_count t of None \<Rightarrow> 0 | Some n \<Rightarrow> n)"

text \<open>
  The \<^verbatim>\<open>try\<close> block (lines 123-159): \<open>Inl\<close> is the exception of a failed put; a
  failed \<^verbatim>\<open>unlink\<close> is caught inside (line 158).
\<close>

definition upload_try :: "upload_env \<Rightarrow> task \<Rightarrow> task list \<Rightarrow> upload_error + upload_result" where
  "upload_try env t q =
     (if \<not> file_exists env then Inr \<lparr>queue_after = q, slept = 2, stored = False, removed = False\<rparr>
      else if put_ok env then Inr \<lparr>queue_after = q, slept = 2, stored = True, removed = unlink_ok env\<rparr>
      else Inl UploadFailed)"

text \<open>
  The whole method with its handler (lines 161-167). \<open>Inl\<close> would be an exception that
  leaves the method.
\<close>

definition upload_file :: "upload_env \<Rightarrow> task \<Rightarrow> task list \<Rightarrow> upload_error + upload_result" where
  "upload_file env t q =
     (case upload_try env t q of
        Inr res \<Rightarrow> Inr res
      | Inl e \<Rightarrow>
          if get_retry_count t < 3 then
            (let t' = t\<lparr>retry_count := Some (get_retry_count t + 1)\<rparr>
             in Inr \<lparr>queue_after = q @ [t'], slept = 2 + 5, stored = False, removed = False\<rparr>)
          else Inr \<lparr>queue_after = q, slept = 2, stored = False, removed = False\<rparr>)"


subsection \<open>Reading a poll item\<close>

text \<open>The value \<^verbatim>\<open>item.get(k)\<close> of a dict item, and its name.\<close>

definition item_field :: "json \<Rightarrow> string \<Rightarrow> json" where
  "item_field item k = (case py_get item k of Inr v \<Rightarrow> v | Inl e \<Rightarrow> JNull)"

definition item_name :: "json \<Rightarrow> string" where
  "item_name item = (case py_index item ''name'' of Inr (JStr n) \<Rightarrow> n | _ \<Rightarrow> [])"

text \<open>An item of the documented shape: a dict whose \<^verbatim>\<open>name\<close> is a string.\<close>

fun named_item :: "json \<Rightarrow> bool" where
  "named_item (JObj kvs) = (case map_of kvs ''name'' of Some (JStr n) \<Rightarrow> True | _ \<Rightarrow> False)"
| "named_item _ = False"

text \<open>
  One task followed through the queue: each time a worker takes it, \<^verbatim>\<open>upload_file\<close>
  runs in the next environment of the list; the result counts how often it is put back.
\<close>

fun requeues :: "upload_env list \<Rightarrow> task \<Rightarrow> nat" where
  "requeues [] t = 0"
| "requeues (env # envs) t =
     (case upload_file env t [] of
        Inl e \<Rightarrow> 0
      | Inr res \<Rightarrow>
          (case queue_after res of
             [] \<Rightarrow> 0
           | t' # ts \<Rightarrow> Suc (requeues envs t')))"

subsection \<open>Sample inputs\<close>

definition cfg10 :: settings where
  "cfg10 = \<lparr>MAX_CONCURRENT_RECORDINGS = 10, OUTPUT_FORMAT = ''mp4'', POLLING_INTERVAL = 10\<rparr>"


text \<open>A session of \<^verbatim>\<open>cam1\<close>, minted at second 100, with child 0.\<close>

definition cam1_session :: recording where
  "cam1_session =
     \<lparr>stream_name = ''cam1'', session_id = 100, process = Some 0, start_time = 100,
      output_dir = Some (''cam1'', 100), uploaded_files = {}, is_active = True, pid = Some 0\<rparr>"

definition one_session :: monitor where
  "one_session = \<lparr>recordings = [(''cam1'', cam1_session)], upload_queue = []\<rparr>"

text \<open>
  Second 200: the directory of that session holds two segments, written at seconds 110 and
  170; child 0 is running; every new child survives its probe.
\<close>

definition world_running :: world where
  "world_running =
     \<lparr>clock = 200,
      dirs = (\<lambda>d. if d = (''cam1'', 100)
                   then Some [(''segment_000.mp4'', 110), (''segment_001.mp4'', 170)] else None),
      exited = {}, launched = 1, survives_probe = (\<lambda>p. True)\<rparr>"

text \<open>The same, but child 0 has exited.\<close>

definition world_crashed :: world where
  "world_crashed = world_running\<lparr>exited := {0}\<rparr>"


text \<open>A poll body reporting one stream with the given \<^verbatim>\<open>source\<close>.\<close>

definition body_one :: "string \<Rightarrow> json \<Rightarrow> json" where
  "body_one name src =
     JObj [(''items'', JArr [JObj [(''name'', JStr name), (''ready'', JBool True), (''source'', src)]])]"

definition fresh_task :: task where
  "fresh_task =
     \<lparr>file_dir = (''cam1'', 100), file_name = ''segment_000.mp4'', task_stream = ''cam1'',
      task_session = 100, queued_at = 200, retry_count = None\<rparr>"

definition failing_env :: upload_env where
  "failing_env = \<lparr>file_exists = True, put_ok = False, unlink_ok = True\<rparr>"

section \<open>Properties\<close>

subsection \<open>Auxiliary facts\<close>

lemma segment_names_match:
  "matches_segment ''mp4'' ''segment_000.mp4''" "matches_segment ''mp4'' ''segment_001.mp4''"
  by (simp_all add: matches_segment_def)

lemma comprehension_named:
  "list_all named_item items \<Longrightarrow>
   comprehension items =
     Inr (map (\<lambda>i. JStr (item_name i))
            (filter (\<lambda>item. truthy (item_field item ''ready'') \<and> truthy (item_field item ''source'')) items))"
proof (induction items)
  case Nil
  then show ?case by simp
next
  case (Cons item items)
  then obtain kvs n where "item = JObj kvs" "map_of kvs ''name'' = Some (JStr n)"
    by (cases item) (auto split: option.splits json.splits)
  with Cons show ?case by (simp add: item_field_def item_name_def)
qed

lemma join_names_strings: "join_names (map (\<lambda>i. JStr (f i)) xs) = Inr (map f xs)"
  by (induction xs) auto

lemma failed_poll_empty: "poll_failed resp \<Longrightarrow> get_active_streams resp = []"
  by (cases resp) (auto simp: get_active_streams_def poll_body_def)

lemma stop_stream_recordings:
  "recordings (fst (stop_stream_recording cfg k mw)) = filter (\<lambda>kv. fst kv \<noteq> k) (recordings (fst mw))"
proof (cases mw)
  case (Pair m w)
  show ?thesis
  proof (cases "map_of (recordings m) k")
    case None
    then have "k \<notin> fst ` set (recordings m)" by (simp add: map_of_eq_None_iff)
    then have "filter (\<lambda>kv. fst kv \<noteq> k) (recordings m) = recordings m"
      by (intro filter_True) auto
    with None Pair show ?thesis by (simp add: stop_stream_recording_def)
  next
    case (Some r)
    with Pair show ?thesis by (simp add: stop_stream_recording_def Let_def)
  qed
qed

lemma stop_inactive_recordings:
  "recordings (fst (stop_inactive cfg active keys mw)) =
   filter (\<lambda>kv. fst kv \<in> set active \<or> fst kv \<notin> set keys) (recordings (fst mw))"
proof (induction keys arbitrary: mw)
  case Nil
  then show ?case by simp
next
  case (Cons k keys)
  show ?case
    by (auto simp: Cons.IH stop_stream_recordings intro!: filter_cong)
qed













lemma upload_file_returns: "\<exists>res. upload_file env t q = Inr res"
  by (simp add: upload_file_def upload_try_def)

lemma requeues_bound: "requeues envs t \<le> 3 - get_retry_count t"
proof (induction envs arbitrary: t)
  case Nil
  then show ?case by simp
next
  case (Cons env envs)
  show ?case
  proof (cases "file_exists env \<and> \<not> put_ok env \<and> get_retry_count t < 3")
    case True
    let ?t' = "t\<lparr>retry_count := Some (get_retry_count t + 1)\<rparr>"
    have e: "requeues (env # envs) t = Suc (requeues envs ?t')"
      using True by (simp add: upload_file_def upload_try_def)
    have "requeues envs ?t' \<le> 3 - get_retry_count ?t'" by (rule Cons.IH)
    then have b: "requeues envs ?t' \<le> 3 - (get_retry_count t + 1)"
      by (simp add: get_retry_count_def)
    show ?thesis unfolding e using b True by arith
  next
    case False
    then have "requeues (env # envs) t = 0"
      by (auto simp: upload_file_def upload_try_def)
    then show ?thesis by simp
  qed
qed

subsection \<open>C1: a failed poll\<close>

text \<open>
  C1 as stated fails. With \<^verbatim>\<open>cam1\<close> being recorded by a running child, a poll answered
  with status 500 empties the session table and stops the child.
\<close>

theorem poll_failure_stops_sessions_counterexample:
  "poll_failed (Response 500 None)
   \<and> map fst (recordings one_session) = [''cam1'']
   \<and> 0 \<notin> exited world_running
   \<and> recordings (fst (run_tick cfg10 (Response 500 None) (one_session, world_running))) = []
   \<and> 0 \<in> exited (snd (run_tick cfg10 (Response 500 None) (one_session, world_running)))"
  by (simp add: Let_def run_tick_def monitor_process_health_def get_active_streams_def
      poll_body_def reconcile_def stop_stream_recording_def stop_recording_def glob_segments_def
      segment_names_match queue_upload_def cfg10_def world_running_def one_session_def
      cam1_session_def)

text \<open>
  C1 (amended): on a tick whose poll fails (transport error, status other than 200, or a
  body that does not decode) the poll result is the empty list, the same as for a
  successful poll that reports no live stream, and the reconciler stops every session: the
  session table is empty at the end of the tick.
\<close>

theorem poll_failure_empties_table:
  "poll_failed resp \<Longrightarrow>
   get_active_streams resp = [] \<and> recordings (fst (run_tick cfg resp mw)) = []"
proof -
  assume "poll_failed resp"
  then have g: "get_active_streams resp = []" by (rule failed_poll_empty)
  have r: "recordings (fst (reconcile cfg [] mw)) = []"
    by (simp add: reconcile_def stop_inactive_recordings)
  have "recordings (fst (monitor_process_health cfg (reconcile cfg [] mw))) = []"
    by (simp add: monitor_process_health_def r)
  with g show ?thesis by (simp add: run_tick_def Let_def)
qed

theorem poll_failure_empties_table_witness:
  "poll_failed TransportError
   \<and> get_active_streams TransportError = []
   \<and> recordings (fst (run_tick cfg10 TransportError (one_session, world_running))) = []"
proof -
  have h: "poll_failed TransportError" by simp
  from poll_failure_empties_table [OF h, of cfg10 "(one_session, world_running)"] h
  show ?thesis by blast
qed

subsection \<open>C2: which streams are live\<close>

text \<open>
  C2 as stated fails. An item with \<^verbatim>\<open>ready\<close> true and \<^verbatim>\<open>source\<close> the empty
  object, which is not null, is not reported as live: the empty dict is falsy.
\<close>

theorem empty_source_not_live_counterexample:
  "py_get (JObj [(''name'', JStr ''cam1''), (''ready'', JBool True), (''source'', JObj [])]) ''ready''
     = Inr (JBool True)
   \<and> py_get (JObj [(''name'', JStr ''cam1''), (''ready'', JBool True), (''source'', JObj [])]) ''source''
     = Inr (JObj [])
   \<and> JObj [] \<noteq> JNull
   \<and> ''cam1'' \<notin> set (get_active_streams (Response 200 (Some (body_one ''cam1'' (JObj [])))))"
  by (simp add: get_active_streams_def poll_body_def body_one_def)

text \<open>
  C2 (amended): in every poll result with status 200 whose \<^verbatim>\<open>items\<close> is a list of
  objects with a string \<^verbatim>\<open>name\<close>, the live streams are, in order, the names of exactly
  the items whose \<^verbatim>\<open>ready\<close> and \<^verbatim>\<open>source\<close> values are both truthy in Python's
  sense (not null, false, zero or empty); so an item with ready true and a non-empty source
  object is live, and one whose source is the empty object is not.
\<close>

theorem live_iff_ready_and_source_truthy:
  "map_of d ''items'' = Some (JArr items) \<Longrightarrow> list_all named_item items \<Longrightarrow>
   get_active_streams (Response 200 (Some (JObj d))) =
     map item_name
       (filter (\<lambda>item. truthy (item_field item ''ready'') \<and> truthy (item_field item ''source'')) items)"
  by (simp add: get_active_streams_def poll_body_def comprehension_named join_names_strings)

theorem live_iff_ready_and_source_truthy_witness:
  "map_of [(''items'', JArr
        [JObj [(''name'', JStr ''cam1''), (''ready'', JBool True), (''source'', JObj [(''type'', JStr ''rtspSession'')])],
         JObj [(''name'', JStr ''cam2''), (''ready'', JBool True), (''source'', JObj [])],
         JObj [(''name'', JStr ''cam3''), (''ready'', JBool False), (''source'', JNull)]])] ''items''
     = Some (JArr
        [JObj [(''name'', JStr ''cam1''), (''ready'', JBool True), (''source'', JObj [(''type'', JStr ''rtspSession'')])],
         JObj [(''name'', JStr ''cam2''), (''ready'', JBool True), (''source'', JObj [])],
         JObj [(''name'', JStr ''cam3''), (''ready'', JBool False), (''source'', JNull)]])
   \<and> list_all named_item
        [JObj [(''name'', JStr ''cam1''), (''ready'', JBool True), (''source'', JObj [(''type'', JStr ''rtspSession'')])],
         JObj [(''name'', JStr ''cam2''), (''ready'', JBool True), (''source'', JObj [])],
         JObj [(''name'', JStr ''cam3''), (''ready'', JBool False), (''source'', JNull)]]
   \<and> get_active_streams (Response 200 (Some (JObj [(''items'', JArr
        [JObj [(''name'', JStr ''cam1''), (''ready'', JBool True), (''source'', JObj [(''type'', JStr ''rtspSession'')])],
         JObj [(''name'', JStr ''cam2''), (''ready'', JBool True), (''source'', JObj [])],
         JObj [(''name'', JStr ''cam3''), (''ready'', JBool False), (''source'', JNull)]])]))) = [''cam1'']"
proof -
  let ?items = "[JObj [(''name'', JStr ''cam1''), (''ready'', JBool True), (''source'', JObj [(''type'', JStr ''rtspSession'')])],
         JObj [(''name'', JStr ''cam2''), (''ready'', JBool True), (''source'', JObj [])],
         JObj [(''name'', JStr ''cam3''), (''ready'', JBool False), (''source'', JNull)]]"
  have h1: "map_of [(''items'', JArr ?items)] ''items'' = Some (JArr ?items)" by simp
  have h2: "list_all named_item ?items" by simp
  have "get_active_streams (Response 200 (Some (JObj [(''items'', JArr ?items)]))) = [''cam1'']"
    using live_iff_ready_and_source_truthy [OF h1 h2]
    by (simp add: item_field_def item_name_def)
  with h1 h2 show ?thesis by blast
qed

subsection \<open>C3: the detector holds back the last file\<close>

text \<open>
  C3 as stated fails. With two segment files in the directory of \<^verbatim>\<open>cam1\<close>, the older
  one idle for more than ten seconds, a scan enqueues the first and adds it to the
  dispatched set.
\<close>

theorem two_files_scan_counterexample:
  "dirs world_running (''cam1'', 100) = Some [(''segment_000.mp4'', 110), (''segment_001.mp4'', 170)]
   \<and> length (glob_segments (OUTPUT_FORMAT cfg10)
        [(''segment_000.mp4'', 110), (''segment_001.mp4'', 170)]) = 2
   \<and> map file_name (upload_queue (check_completed_segments cfg10 world_running one_session))
       = [''segment_000.mp4'']
   \<and> map (\<lambda>kv. uploaded_files (snd kv))
        (recordings (check_completed_segments cfg10 world_running one_session))
       = [{''segment_000.mp4''}]"
  by (simp add: check_completed_segments_def check_recording_def glob_segments_def
      segment_names_match cfg10_def world_running_def one_session_def cam1_session_def
      queue_upload_def)

text \<open>
  C3 (amended): for every detector scan of a session's output directory, if the directory
  contains one or no file matching the segment pattern, the scan enqueues nothing and does
  not modify the dispatched set of that session.
\<close>

theorem at_most_one_file_scan_noop:
  "output_dir r = Some d \<Longrightarrow> dirs w d = Some entries \<Longrightarrow>
   length (glob_segments (OUTPUT_FORMAT cfg) entries) \<le> 1 \<Longrightarrow>
   check_recording cfg w stream r q = (r, q, [])"
  by (simp add: check_recording_def)

theorem at_most_one_file_scan_noop_witness:
  "output_dir cam1_session = Some (''cam1'', 100)
   \<and> dirs (world_running\<lparr>dirs := (\<lambda>d. Some [(''segment_000.mp4'', 110), (''notes.txt'', 50)])\<rparr>)
        (''cam1'', 100) = Some [(''segment_000.mp4'', 110), (''notes.txt'', 50)]
   \<and> length (glob_segments (OUTPUT_FORMAT cfg10) [(''segment_000.mp4'', 110), (''notes.txt'', 50)]) \<le> 1
   \<and> check_recording cfg10
        (world_running\<lparr>dirs := (\<lambda>d. Some [(''segment_000.mp4'', 110), (''notes.txt'', 50)])\<rparr>)
        ''cam1'' cam1_session [] = (cam1_session, [], [])"
proof -
  let ?w = "world_running\<lparr>dirs := (\<lambda>d. Some [(''segment_000.mp4'', 110), (''notes.txt'', 50)])\<rparr>"
  have h1: "output_dir cam1_session = Some (''cam1'', 100)" by (simp add: cam1_session_def)
  have h2: "dirs ?w (''cam1'', 100) = Some [(''segment_000.mp4'', 110), (''notes.txt'', 50)]"
    by simp
  have h3: "length (glob_segments (OUTPUT_FORMAT cfg10)
              [(''segment_000.mp4'', 110), (''notes.txt'', 50)]) \<le> 1"
    by (simp add: glob_segments_def matches_segment_def cfg10_def)
  from at_most_one_file_scan_noop [OF h1 h2 h3, of "''cam1''" "[]"] h1 h2 h3
  show ?thesis by blast
qed

subsection \<open>C4: dispatched before enqueued, and at most once\<close>




subsection \<open>C5: the order of starts and stops within a tick\<close>




subsection \<open>C6: the health sweep restarts inline\<close>




subsection \<open>C7: the files of a crashed session\<close>

text \<open>
  C7 fails on the code. The child of \<^verbatim>\<open>cam1\<close> has exited and the session's directory
  holds two segment files: the health sweep drops the session without enqueuing anything,
  while the stop operation on the same state enqueues both files under the old session id.
\<close>

theorem crashed_session_files_not_enqueued:
  "upload_queue (fst (monitor_process_health cfg10 (one_session, world_crashed))) = []
   \<and> map (\<lambda>t. (file_name t, task_session t))
        (upload_queue (fst (stop_stream_recording cfg10 ''cam1'' (one_session, world_crashed))))
       = [(''segment_000.mp4'', 100), (''segment_001.mp4'', 100)]"
  by (simp add: Let_def monitor_process_health_def start_stream_recording_def
      start_recording_def stop_stream_recording_def stop_recording_def glob_segments_def
      segment_names_match queue_upload_def cfg10_def world_running_def world_crashed_def
      one_session_def cam1_session_def)

subsection \<open>C8: bounded retry of a failed upload\<close>

text \<open>
  C8: when the put of an upload task fails, a task whose retry count is below 3 has the
  count incremented and, after a sleep of 5 seconds (on top of the settle sleep of 2), is
  put back at the end of the queue; a task whose count has reached 3 is dropped, the queue
  staying as it is; in every case \<^verbatim>\<open>upload_file\<close> returns normally; and a task
  followed through any sequence of attempts is put back at most 3 times, less its count.
\<close>

theorem failed_upload_retried_at_most_thrice:
  "file_exists env \<Longrightarrow> \<not> put_ok env \<Longrightarrow>
   (get_retry_count t < 3 \<longrightarrow>
      upload_file env t q =
        Inr \<lparr>queue_after = q @ [t\<lparr>retry_count := Some (get_retry_count t + 1)\<rparr>],
             slept = 2 + 5, stored = False, removed = False\<rparr>)
   \<and> (3 \<le> get_retry_count t \<longrightarrow>
      upload_file env t q = Inr \<lparr>queue_after = q, slept = 2, stored = False, removed = False\<rparr>)
   \<and> (\<exists>res. upload_file env t q = Inr res)
   \<and> requeues envs t \<le> 3 - get_retry_count t"
  by (simp add: requeues_bound) (simp add: upload_file_def upload_try_def)

text \<open>
  The theorem at a fresh task whose put keeps failing: it is put back with count 1, and
  over six attempts it is put back exactly three times.
\<close>

theorem failed_upload_retried_at_most_thrice_witness:
  "file_exists failing_env \<and> \<not> put_ok failing_env
   \<and> get_retry_count fresh_task < 3
   \<and> upload_file failing_env fresh_task [] =
        Inr \<lparr>queue_after = [fresh_task\<lparr>retry_count := Some 1\<rparr>],
             slept = 7, stored = False, removed = False\<rparr>
   \<and> requeues (replicate 6 failing_env) fresh_task \<le> 3
   \<and> requeues (replicate 6 failing_env) fresh_task = 3"
proof -
  have h1: "file_exists failing_env" by (simp add: failing_env_def)
  have h2: "\<not> put_ok failing_env" by (simp add: failing_env_def)
  have h3: "get_retry_count fresh_task < 3" by (simp add: get_retry_count_def fresh_task_def)
  have z: "get_retry_count fresh_task = 0" by (simp add: get_retry_count_def fresh_task_def)
  from failed_upload_retried_at_most_thrice [OF h1 h2, of fresh_task "[]" "replicate 6 failing_env"] h3
  have "upload_file failing_env fresh_task [] =
        Inr \<lparr>queue_after = [] @ [fresh_task\<lparr>retry_count := Some (get_retry_count fresh_task + 1)\<rparr>],
             slept = 2 + 5, stored = False, removed = False\<rparr>"
    and "requeues (replicate 6 failing_env) fresh_task \<le> 3 - get_retry_count fresh_task"
    by blast+
  then have "upload_file failing_env fresh_task [] =
        Inr \<lparr>queue_after = [fresh_task\<lparr>retry_count := Some 1\<rparr>],
             slept = 7, stored = False, removed = False\<rparr>"
    and "requeues (replicate 6 failing_env) fresh_task \<le> 3"
    by (simp_all add: z)
  moreover have "requeues (replicate 6 failing_env) fresh_task = 3"
    by (simp add: eval_nat_numeral upload_file_def upload_try_def failing_env_def
        fresh_task_def get_retry_count_def)
  ultimately show ?thesis using h1 h2 h3 by blast
qed

subsection \<open>C9: the multipart configuration\<close>

text \<open>
  C9 fails on the code. The threshold and the part size are both 25600 bytes (25 KiB), not
  25 MiB: an object of 30000 bytes is already uploaded in parts.
\<close>

theorem multipart_threshold_is_25_KiB:
  "multipart_threshold = 25600 \<and> multipart_chunksize = 25600
   \<and> multipart_threshold < 25 * MiB \<and> uses_multipart 30000 \<and> 30000 < 25 * MiB"
  by (simp add: multipart_threshold_def multipart_chunksize_def MiB_def uses_multipart_def)

subsection \<open>C10: stopping a stream that is not recorded\<close>

text \<open>
  C10: the stop operation for a stream name with no entry in the session table returns
  with the session table, every dispatched set and the upload queue unchanged (and the
  environment untouched).
\<close>

theorem stop_unknown_stream_noop:
  "stream \<notin> set (map fst (recordings m)) \<Longrightarrow> stop_stream_recording cfg stream (m, w) = (m, w)"
proof -
  assume "stream \<notin> set (map fst (recordings m))"
  then have "map_of (recordings m) stream = None" by (simp add: map_of_eq_None_iff)
  then show ?thesis by (simp add: stop_stream_recording_def)
qed

theorem stop_unknown_stream_noop_witness:
  "''cam2'' \<notin> set (map fst (recordings one_session))
   \<and> stop_stream_recording cfg10 ''cam2'' (one_session, world_running) = (one_session, world_running)"
proof -
  have h: "''cam2'' \<notin> set (map fst (recordings one_session))" by (simp add: one_session_def)
  from stop_unknown_stream_noop [OF h, of cfg10 world_running] h
  show ?thesis by blast
qed

end
